theory Spec2Isabelle
  imports
    Complex_Main
    "HOL-Library.Char_ord"
    "HOL-Library.List_Lexorder"
    "HOL-Library.Product_Lexorder"
    "HOL-Library.Multiset"
begin

section \<open>BlitzHash benchmark visualisation (viz/plot\_results.py)\<close>

text \<open>
  The script reads a table of benchmark measurements into a pandas data frame and
  derives three charts from it.  The embedding below follows the script function by
  function.  A data frame is the list of its rows in load order; a cell of the column
  mb\_s is a finite number and timestamps and thread counts are integers, as the input
  schema has them.

  Throughput arithmetic is float64 arithmetic with its range: a value is a finite
  number, an infinity or NaN, a finite result beyond the largest float becomes an
  infinity, and the IEEE rules for infinities, NaN and division by zero apply.
  Rounding of finite results is not modelled (finite results are exact rationals), nor
  is the sign of zero.

  Everything the plotting library draws is recorded as the data handed to it.  Which
  instants pandas can convert to a date (line 135) and matplotlib can place on a date
  axis depends on the installed versions; both sets are parameters of the history
  chart (\<open>date_support\<close>).
\<close>

subsection \<open>Data model\<close>

record benchmark_record =
  timestamp :: int
  algorithm :: string
  threads :: int
  mb_s :: rat

type_synonym dataframe = "benchmark_record list"

datatype float64 = Finite rat | PosInf | NegInf | NaN

text \<open>What the script hands to \<open>savefig\<close>: the series drawn in each figure.\<close>

datatype chart =
    ComparisonChart "(string \<times> float64) list" "(string \<times> float64) list"
  | ScalingChart "(int \<times> float64) list" "float64 list option"
  | HistoryChart "(string \<times> (int \<times> float64) list) list"

text \<open>The lines the script prints, one constructor per \<open>print\<close> site.\<close>

datatype notice =
    Loaded nat
  | ChartSaved string
  | SummaryTable "(string \<times> float64 \<times> float64) list"
  | NoParallelData
  | NeedMultipleThreadCounts
  | ThreadingChartSaved string
  | NeedMultipleRuns
  | HistoryChartSaved string

text \<open>The effects of a run: the image files on disk and the console output.\<close>

record world =
  files :: "(string \<times> chart) list"
  console :: "notice list"

datatype py_error = IndexError | SystemExit int | OutOfBoundsDatetime | ValueError

text \<open>
  The instants (seconds since the epoch) that \<open>pd.to_datetime(..., unit='s')\<close>
  converts, and those that matplotlib's date axis can show.
\<close>

record date_support =
  to_datetime_ok :: "int \<Rightarrow> bool"
  date_axis_ok :: "int \<Rightarrow> bool"

subsection \<open>float64 arithmetic\<close>

text \<open>The largest finite float64, about 1.8e308.\<close>

definition float_max :: rat where
  "float_max = (2 ^ 53 - 1) * 2 ^ 971"

text \<open>A number as a float64: beyond the largest float it is an infinity.\<close>

definition to_float :: "rat \<Rightarrow> float64" where
  "to_float q =
     (if float_max < q then PosInf else if q < - float_max then NegInf else Finite q)"

fun fneg :: "float64 \<Rightarrow> float64" where
  "fneg (Finite x) = Finite (- x)"
| "fneg PosInf = NegInf"
| "fneg NegInf = PosInf"
| "fneg NaN = NaN"

fun fadd :: "float64 \<Rightarrow> float64 \<Rightarrow> float64" where
  "fadd (Finite x) (Finite y) = to_float (x + y)"
| "fadd NaN y = NaN"
| "fadd x NaN = NaN"
| "fadd PosInf NegInf = NaN"
| "fadd NegInf PosInf = NaN"
| "fadd PosInf y = PosInf"
| "fadd NegInf y = NegInf"
| "fadd (Finite x) y = y"

definition fsub :: "float64 \<Rightarrow> float64 \<Rightarrow> float64" where
  "fsub x y = fadd x (fneg y)"

fun fmul :: "float64 \<Rightarrow> float64 \<Rightarrow> float64" where
  "fmul (Finite x) (Finite y) = to_float (x * y)"
| "fmul NaN y = NaN"
| "fmul x NaN = NaN"
| "fmul PosInf (Finite y) = (if y = 0 then NaN else if 0 < y then PosInf else NegInf)"
| "fmul NegInf (Finite y) = (if y = 0 then NaN else if 0 < y then NegInf else PosInf)"
| "fmul (Finite x) PosInf = (if x = 0 then NaN else if 0 < x then PosInf else NegInf)"
| "fmul (Finite x) NegInf = (if x = 0 then NaN else if 0 < x then NegInf else PosInf)"
| "fmul PosInf PosInf = PosInf"
| "fmul NegInf NegInf = PosInf"
| "fmul PosInf NegInf = NegInf"
| "fmul NegInf PosInf = NegInf"

text \<open>
  Division as numpy does it: dividing by zero raises nothing, it gives NaN for 0/0
  and an infinity otherwise; an infinity divided by an infinity is NaN.
\<close>

fun fdiv :: "float64 \<Rightarrow> float64 \<Rightarrow> float64" where
  "fdiv (Finite x) (Finite y) =
     (if y = 0 then (if x = 0 then NaN else if 0 < x then PosInf else NegInf)
      else to_float (x / y))"
| "fdiv NaN y = NaN"
| "fdiv x NaN = NaN"
| "fdiv (Finite x) y = Finite 0"
| "fdiv PosInf (Finite y) = (if 0 \<le> y then PosInf else NegInf)"
| "fdiv NegInf (Finite y) = (if 0 \<le> y then NegInf else PosInf)"
| "fdiv x y = NaN"

text \<open>The comparison \<open>x <= y\<close> of floats: false as soon as one side is NaN.\<close>

fun fle :: "float64 \<Rightarrow> float64 \<Rightarrow> bool" where
  "fle (Finite x) (Finite y) = (x \<le> y)"
| "fle NaN y = False"
| "fle x NaN = False"
| "fle NegInf y = True"
| "fle x PosInf = True"
| "fle x y = False"

subsection \<open>The pandas operations the script uses\<close>

text \<open>\<open>Series.max()\<close>: the largest entry; NaN (here \<open>None\<close>) for an empty series.\<close>

fun series_max :: "int list \<Rightarrow> int option" where
  "series_max [] = None"
| "series_max (x # xs) = (case series_max xs of None \<Rightarrow> Some x | Some m \<Rightarrow> Some (max x m))"

text \<open>\<open>Series.unique()\<close>: the distinct entries in order of first appearance.\<close>

fun unique :: "'a list \<Rightarrow> 'a list" where
  "unique [] = []"
| "unique (x # xs) = x # filter (\<lambda>y. y \<noteq> x) (unique xs)"

text \<open>\<open>Series.nunique()\<close>: the number of distinct entries.\<close>

definition nunique :: "'a list \<Rightarrow> nat" where
  "nunique xs = length (unique xs)"

text \<open>
  The sum that \<open>groupby(...).mean()\<close> takes of a group: pandas adds the cells in row
  order with Kahan's compensation.  With exact finite results the compensation stays
  0; once a partial sum has overflowed to an infinity the compensation is infinite
  too, and the next cell turns the sum into NaN.  A compensation that is NaN is reset
  to 0.
\<close>

fun group_sum :: "float64 \<Rightarrow> float64 \<Rightarrow> rat list \<Rightarrow> float64" where
  "group_sum sumx compensation [] = sumx"
| "group_sum sumx compensation (val # vals) =
     (let y = fsub (to_float val) compensation;
          t = fadd sumx y;
          c = fsub (fsub t sumx) y
      in group_sum t (if c = NaN then Finite 0 else c) vals)"

text \<open>
  \<open>Series.mean()\<close> of a group: the sum divided by the number of cells (NaN for no
  cells).  Lemma \<open>mean_in_range\<close> below: for cells that are not negative and whose
  sum is within the float range it is the arithmetic mean.
\<close>

definition mean :: "rat list \<Rightarrow> float64" where
  "mean xs = fdiv (group_sum (Finite 0) (Finite 0) xs) (Finite (of_nat (length xs)))"

text \<open>
  \<open>df.groupby(key)['mb_s'].mean()\<close>: one entry per distinct key, keys ascending
  (\<open>groupby\<close> sorts its keys), each with the mean throughput of the rows of that key.
\<close>

definition groupby_mean :: "(benchmark_record \<Rightarrow> 'k::linorder) \<Rightarrow> dataframe \<Rightarrow> ('k \<times> float64) list" where
  "groupby_mean key df =
     map (\<lambda>k. (k, mean (map mb_s (filter (\<lambda>r. key r = k) df)))) (sort (unique (map key df)))"

text \<open>
  The place of a float in an ascending sort: negative infinity, the finite values in
  their order, positive infinity, and NaN last.
\<close>

fun sort_rank :: "float64 \<Rightarrow> nat \<times> rat" where
  "sort_rank NegInf = (0, 0)"
| "sort_rank (Finite x) = (1, x)"
| "sort_rank PosInf = (2, 0)"
| "sort_rank NaN = (3, 0)"

text \<open>
  \<open>Series.sort_values()\<close> and \<open>Series.sort_index()\<close>: ascending by value, by index.
  \<open>DataFrame.sort_values('timestamp')\<close>: rows ascending by timestamp.  The model
  sorts by insertion and keeps equal entries in their order.  pandas' default sort
  gives no such promise, so the order among equal entries is not to be read off the
  model; no claim below is stated in terms of it.
\<close>

definition sort_values :: "('k \<times> float64) list \<Rightarrow> ('k \<times> float64) list" where
  "sort_values s = sort_key (\<lambda>p. sort_rank (snd p)) s"

definition sort_index :: "('k::linorder \<times> float64) list \<Rightarrow> ('k \<times> float64) list" where
  "sort_index s = sort_key fst s"

definition sort_values_timestamp :: "dataframe \<Rightarrow> dataframe" where
  "sort_values_timestamp df = sort_key timestamp df"

text \<open>\<open>s.iloc[0]\<close>: the first value of a series; IndexError when there is none.\<close>

fun iloc0 :: "('k \<times> 'v) list \<Rightarrow> py_error + 'v" where
  "iloc0 [] = Inl IndexError"
| "iloc0 ((k, v) # s) = Inr v"

text \<open>\<open>plt.savefig(output)\<close>: writes the figure, replacing a file of the same name.\<close>

fun savefig :: "string \<Rightarrow> chart \<Rightarrow> (string \<times> chart) list \<Rightarrow> (string \<times> chart) list" where
  "savefig p c [] = [(p, c)]"
| "savefig p c ((q, d) # fs) = (if q = p then (p, c) # fs else (q, d) # savefig p c fs)"

definition print :: "notice \<Rightarrow> world \<Rightarrow> world" where
  "print n w = w\<lparr>console := console w @ [n]\<rparr>"

subsection \<open>load\_results (lines 12 to 21)\<close>

text \<open>
  The file system is the argument \<open>csv\<close>: \<open>None\<close> when the path does not exist,
  otherwise the rows \<open>read_csv\<close> parses from it.  A missing file ends the process
  with status 1, after a diagnostic that the model does not keep.
\<close>

definition load_results :: "dataframe option \<Rightarrow> world \<Rightarrow> py_error + (dataframe \<times> world)" where
  "load_results csv w =
     (case csv of
        None \<Rightarrow> Inl (SystemExit 1)
      | Some df \<Rightarrow> Inr (df, print (Loaded (length df)) w))"

subsection \<open>plot\_throughput\_comparison (lines 23 to 83)\<close>

text \<open>Lines 27 and 28: the rows of the most recent run.\<close>

definition latest_run :: "dataframe \<Rightarrow> dataframe" where
  "latest_run df =
     (let latest_timestamp = series_max (map timestamp df)
      in filter (\<lambda>r. Some (timestamp r) = latest_timestamp) df)"

text \<open>Line 31: mean throughput per algorithm, slowest first.\<close>

definition throughput_summary :: "dataframe \<Rightarrow> (string \<times> float64) list" where
  "throughput_summary df = sort_values (groupby_mean algorithm (latest_run df))"

text \<open>Line 53: every mean divided by the baseline.\<close>

definition speedup_series :: "(string \<times> float64) list \<Rightarrow> float64 \<Rightarrow> (string \<times> float64) list" where
  "speedup_series summary baseline = map (\<lambda>(a, m). (a, fdiv m baseline)) summary"

text \<open>Lines 79 to 82: the rows of the printed table; line 81 divides once more.\<close>

definition summary_table :: "(string \<times> float64) list \<Rightarrow> float64 \<Rightarrow> (string \<times> float64 \<times> float64) list" where
  "summary_table summary baseline = map (\<lambda>(a, m). (a, m, fdiv m baseline)) summary"

definition plot_throughput_comparison :: "dataframe \<Rightarrow> string \<Rightarrow> world \<Rightarrow> py_error + world" where
  "plot_throughput_comparison df output w =
     (let summary = throughput_summary df
      in case iloc0 summary of
           Inl e \<Rightarrow> Inl e
         | Inr baseline \<Rightarrow>
             (let speedup = speedup_series summary baseline;
                  w1 = w\<lparr>files := savefig output (ComparisonChart summary speedup) (files w)\<rparr>;
                  w2 = print (ChartSaved output) w1
              in Inr (print (SummaryTable (summary_table summary baseline)) w2)))"

text \<open>
  The mean that line 31 computes for one algorithm: the mean throughput of its rows in
  the latest run (lemma \<open>throughput_summary_entry\<close> below).
\<close>

definition latest_mean :: "dataframe \<Rightarrow> string \<Rightarrow> float64" where
  "latest_mean df a = mean (map mb_s (filter (\<lambda>r. algorithm r = a) (latest_run df)))"

subsection \<open>plot\_threading\_scaling (lines 85 to 122)\<close>

text \<open>Line 89: the rows of the parallel variant, from the whole data frame.\<close>

definition parallel_rows :: "dataframe \<Rightarrow> dataframe" where
  "parallel_rows df = filter (\<lambda>r. algorithm r = ''BlitzHash-MT'') df"

text \<open>Line 96: mean throughput per thread count, thread counts ascending.\<close>

definition by_threads :: "dataframe \<Rightarrow> (int \<times> float64) list" where
  "by_threads parallel = sort_index (groupby_mean threads parallel)"

definition plot_threading_scaling :: "dataframe \<Rightarrow> string \<Rightarrow> world \<Rightarrow> py_error + world" where
  "plot_threading_scaling df output w =
     (let parallel = parallel_rows df
      in if length parallel = 0 then Inr (print NoParallelData w)
         else
           (let bt = by_threads parallel
            in if length bt < 2 then Inr (print NeedMultipleThreadCounts w)
               else
                 (case (if length bt > 0
                        then (case iloc0 bt of
                                Inl e \<Rightarrow> Inl e
                              | Inr single_thread_speed \<Rightarrow>
                                  Inr (Some (map (\<lambda>t. fmul single_thread_speed (Finite (of_int t)))
                                               (map fst bt))))
                        else Inr None) of
                    Inl e \<Rightarrow> Inl e
                  | Inr ideal \<Rightarrow>
                      Inr (print (ThreadingChartSaved output)
                            (w\<lparr>files := savefig output (ScalingChart bt ideal) (files w)\<rparr>)))))"

subsection \<open>plot\_history (lines 124 to 147)\<close>

text \<open>
  Lines 133 to 136, the loop over the algorithms in order of first appearance: the
  rows of the algorithm in time order, their timestamps converted to dates, and the
  line drawn.  The conversion raises OutOfBoundsDatetime for an instant pandas cannot
  represent, which ends the loop and the function.
\<close>

fun history_lines :: "date_support \<Rightarrow> dataframe \<Rightarrow> string list \<Rightarrow> py_error + (string \<times> (int \<times> float64) list) list" where
  "history_lines lib df [] = Inr []"
| "history_lines lib df (algo # algos) =
     (let algo_data = sort_values_timestamp (filter (\<lambda>r. algorithm r = algo) df)
      in if list_all (to_datetime_ok lib) (map timestamp algo_data)
         then (case history_lines lib df algos of
                 Inl e \<Rightarrow> Inl e
               | Inr ls \<Rightarrow> Inr ((algo, map (\<lambda>r. (timestamp r, to_float (mb_s r))) algo_data) # ls))
         else Inl OutOfBoundsDatetime)"

text \<open>
  After the loop the date axis is laid out (line 143); matplotlib raises ValueError
  for an instant its date axis cannot show.  Only then is the figure saved.
\<close>

definition plot_history :: "date_support \<Rightarrow> dataframe \<Rightarrow> string \<Rightarrow> world \<Rightarrow> py_error + world" where
  "plot_history lib df output w =
     (if nunique (map timestamp df) < 2 then Inr (print NeedMultipleRuns w)
      else
        (case history_lines lib df (unique (map algorithm df)) of
           Inl e \<Rightarrow> Inl e
         | Inr ls \<Rightarrow>
             if list_all (date_axis_ok lib) (map timestamp df)
             then Inr (print (HistoryChartSaved output)
                        (w\<lparr>files := savefig output (HistoryChart ls) (files w)\<rparr>))
             else Inl ValueError))"

subsection \<open>main (lines 149 to 160)\<close>

definition main :: "date_support \<Rightarrow> dataframe option \<Rightarrow> world \<Rightarrow> py_error + world" where
  "main lib csv w =
     (case load_results csv w of
        Inl e \<Rightarrow> Inl e
      | Inr (df, w1) \<Rightarrow>
          (case plot_throughput_comparison df ''bench_plot.png'' w1 of
             Inl e \<Rightarrow> Inl e
           | Inr w2 \<Rightarrow>
               (case plot_threading_scaling df ''threading_plot.png'' w2 of
                  Inl e \<Rightarrow> Inl e
                | Inr w3 \<Rightarrow> plot_history lib df ''history_plot.png'' w3)))"

subsection \<open>Example inputs\<close>

text \<open>
  The date support of pandas with nanosecond timestamps (years 1677 to 2262) and of
  matplotlib's date axis (years 1 to 9999), in seconds since the epoch.
\<close>

definition ns_dates :: date_support where
  "ns_dates =
     \<lparr>to_datetime_ok = (\<lambda>t. - 9223372036 \<le> t \<and> t \<le> 9223372036),
      date_axis_ok = (\<lambda>t. - 62135596800 \<le> t \<and> t \<le> 253402300799)\<rparr>"

text \<open>
  Rows whose per-thread means for 'BlitzHash-MT' are 100, 180 and 300 MB/s at 1, 2
  and 4 threads; the mean at 2 threads is of two rows from different runs.
\<close>

definition p5_rows :: dataframe where
  "p5_rows =
     [\<lparr>timestamp = 100, algorithm = ''BlitzHash-MT'', threads = 4, mb_s = 300\<rparr>,
      \<lparr>timestamp = 100, algorithm = ''BlitzHash'', threads = 1, mb_s = 90\<rparr>,
      \<lparr>timestamp = 100, algorithm = ''BlitzHash-MT'', threads = 1, mb_s = 100\<rparr>,
      \<lparr>timestamp = 90, algorithm = ''BlitzHash-MT'', threads = 2, mb_s = 160\<rparr>,
      \<lparr>timestamp = 100, algorithm = ''BlitzHash-MT'', threads = 2, mb_s = 200\<rparr>]"


text \<open>A throughput within the float range whose double is beyond it.\<close>

definition huge :: rat where
  "huge = 10 ^ 308"

text \<open>A latest run in which 'BlitzHash' is the slowest algorithm, and an older run.\<close>

definition slow_blitz_rows :: dataframe where
  "slow_blitz_rows =
     [\<lparr>timestamp = 200, algorithm = ''SHA-256'', threads = 1, mb_s = 50\<rparr>,
      \<lparr>timestamp = 200, algorithm = ''BlitzHash'', threads = 1, mb_s = 30\<rparr>,
      \<lparr>timestamp = 200, algorithm = ''BlitzHash'', threads = 1, mb_s = 10\<rparr>,
      \<lparr>timestamp = 100, algorithm = ''SHA-256'', threads = 1, mb_s = 5\<rparr>]"

section \<open>Properties\<close>

subsection \<open>float64 arithmetic within the range\<close>

lemma float_max_large: "10 ^ 308 \<le> float_max"
  by (simp add: float_max_def)

lemma to_float_in_range: "- float_max \<le> q \<Longrightarrow> q \<le> float_max \<Longrightarrow> to_float q = Finite q"
  by (simp add: to_float_def)

lemma to_float_small: "\<bar>q\<bar> \<le> 10 ^ 308 \<Longrightarrow> to_float q = Finite q"
  using float_max_large by (intro to_float_in_range) linarith+

lemma group_sum_in_range:
  assumes "\<forall>x \<in> set xs. 0 \<le> x" and "0 \<le> s" and "s + sum_list xs \<le> float_max"
  shows "group_sum (Finite s) (Finite 0) xs = Finite (s + sum_list xs)"
  using assms
proof (induction xs arbitrary: s)
  case Nil
  then show ?case by simp
next
  case (Cons x xs)
  have nn: "0 \<le> sum_list xs"
    using Cons.prems(1) by (simp add: sum_list_nonneg)
  have x: "0 \<le> x"
    using Cons.prems(1) by simp
  have fx: "to_float x = Finite x"
    using x nn Cons.prems by (intro to_float_in_range) simp_all
  have fs: "to_float (s + x) = Finite (s + x)"
    using x nn Cons.prems by (intro to_float_in_range) simp_all
  have f0: "to_float 0 = Finite 0"
    using nn Cons.prems x by (intro to_float_in_range) simp_all
  have "group_sum (Finite s) (Finite 0) (x # xs) = group_sum (Finite (s + x)) (Finite 0) xs"
    by (simp add: fsub_def fx fs f0 Let_def)
  also have "\<dots> = Finite (s + x + sum_list xs)"
    using Cons.prems x by (intro Cons.IH) (simp_all add: add.assoc)
  finally show ?case
    by (simp add: add.assoc)
qed

lemma mean_in_range:
  assumes "xs \<noteq> []" and "\<forall>x \<in> set xs. 0 \<le> x" and "sum_list xs \<le> float_max"
  shows "mean xs = Finite (sum_list xs / of_nat (length xs))"
proof -
  have nn: "0 \<le> sum_list xs"
    using assms(2) by (simp add: sum_list_nonneg)
  have len: "(1::rat) \<le> of_nat (length xs)"
    using assms(1) by (cases xs) simp_all
  have "sum_list xs / of_nat (length xs) \<le> sum_list xs"
    using nn len by (simp add: divide_le_eq mult_le_cancel_left1 mult.commute)
  moreover have "0 \<le> sum_list xs / of_nat (length xs)"
    using nn by simp
  ultimately have "to_float (sum_list xs / of_nat (length xs)) = Finite (sum_list xs / of_nat (length xs))"
    using assms(3) by (intro to_float_in_range) linarith+
  then show ?thesis
    using assms len group_sum_in_range [of xs 0] by (simp add: mean_def)
qed

subsection \<open>Skipped charts\<close>

lemma parallel_rows_empty_iff:
  "parallel_rows df = [] \<longleftrightarrow> (\<forall>r \<in> set df. algorithm r \<noteq> ''BlitzHash-MT'')"
  by (simp add: parallel_rows_def filter_empty_conv)

text \<open>
  Claim C6.  When no row of the data frame carries the label 'BlitzHash-MT', the
  scaling analysis returns normally: it raises nothing, prints the notice that it
  skips the chart, and leaves the image files as they were.
\<close>

theorem scaling_skipped_without_parallel_rows:
  assumes "\<forall>r \<in> set df. algorithm r \<noteq> ''BlitzHash-MT''"
  shows "\<exists>w'. plot_threading_scaling df output w = Inr w' \<and> files w' = files w
           \<and> console w' = console w @ [NoParallelData]"
proof -
  have "parallel_rows df = []"
    using assms by (simp add: parallel_rows_empty_iff)
  then have "plot_threading_scaling df output w = Inr (print NoParallelData w)"
    by (simp add: plot_threading_scaling_def)
  then show ?thesis
    by (simp add: print_def)
qed

theorem scaling_skipped_without_parallel_rows_witness:
  "\<exists>w'. plot_threading_scaling
          [\<lparr>timestamp = 100, algorithm = ''SHA-256'', threads = 1, mb_s = 50\<rparr>,
           \<lparr>timestamp = 100, algorithm = ''BlitzHash'', threads = 1, mb_s = 200\<rparr>]
          ''threading_plot.png'' \<lparr>files = [], console = [Loaded 2]\<rparr> = Inr w'
        \<and> files w' = [] \<and> console w' = [Loaded 2, NoParallelData]"
  using scaling_skipped_without_parallel_rows
    [of "[\<lparr>timestamp = 100, algorithm = ''SHA-256'', threads = 1, mb_s = 50\<rparr>,
          \<lparr>timestamp = 100, algorithm = ''BlitzHash'', threads = 1, mb_s = 200\<rparr>]"
        "''threading_plot.png''" "\<lparr>files = [], console = [Loaded 2]\<rparr>"]
  by simp

subsection \<open>Distinct entries\<close>

lemma set_unique: "set (unique xs) = set xs"
  by (induction xs) auto

lemma distinct_unique: "distinct (unique xs)"
  by (induction xs) (auto simp: set_unique)

lemma nunique_card: "nunique xs = card (set xs)"
  using distinct_card [OF distinct_unique, of xs] by (simp add: nunique_def set_unique)

text \<open>
  Claim C8.  A data frame with fewer than two distinct timestamps (one, or none at
  all) makes the history analysis return normally after printing that it needs
  several runs; no history image is written.
\<close>

theorem history_skipped_below_two_timestamps:
  assumes "card (timestamp ` set df) < 2"
  shows "\<exists>w'. plot_history lib df output w = Inr w' \<and> files w' = files w
           \<and> console w' = console w @ [NeedMultipleRuns]"
proof -
  have "nunique (map timestamp df) < 2"
    using assms by (simp add: nunique_card)
  then have "plot_history lib df output w = Inr (print NeedMultipleRuns w)"
    by (simp add: plot_history_def)
  then show ?thesis
    by (simp add: print_def)
qed

theorem history_skipped_below_two_timestamps_witness:
  "\<exists>w'. plot_history ns_dates
          [\<lparr>timestamp = 100, algorithm = ''SHA-256'', threads = 1, mb_s = 50\<rparr>,
           \<lparr>timestamp = 100, algorithm = ''BlitzHash'', threads = 1, mb_s = 200\<rparr>,
           \<lparr>timestamp = 100, algorithm = ''BlitzHash-MT'', threads = 4, mb_s = 600\<rparr>]
          ''history_plot.png'' \<lparr>files = [], console = []\<rparr> = Inr w'
        \<and> files w' = [] \<and> console w' = [NeedMultipleRuns]"
  using history_skipped_below_two_timestamps
    [of "[\<lparr>timestamp = 100, algorithm = ''SHA-256'', threads = 1, mb_s = 50\<rparr>,
          \<lparr>timestamp = 100, algorithm = ''BlitzHash'', threads = 1, mb_s = 200\<rparr>,
          \<lparr>timestamp = 100, algorithm = ''BlitzHash-MT'', threads = 4, mb_s = 600\<rparr>]"
        ns_dates "''history_plot.png''" "\<lparr>files = [], console = []\<rparr>"]
  by simp

subsection \<open>The empty data frame\<close>

text \<open>
  Claim C3.  A source that exists and holds no row loads successfully, as the empty
  data frame.  The throughput summarization of the empty data frame then raises: the
  summary is empty and reading its first entry (line 52) is an IndexError, before
  any chart is saved or any table printed, and the error ends the whole run.
\<close>

theorem empty_dataset_loads_and_summarization_raises:
  "load_results (Some []) w = Inr ([], print (Loaded 0) w)
   \<and> plot_throughput_comparison [] output w' = Inl IndexError
   \<and> main lib (Some []) w = Inl IndexError"
  by (simp add: load_results_def plot_throughput_comparison_def throughput_summary_def
      latest_run_def groupby_mean_def sort_values_def main_def)

subsection \<open>Grouping\<close>

lemma map_fst_groupby_mean: "map fst (groupby_mean key df) = sort (unique (map key df))"
  by (simp add: groupby_mean_def comp_def)

lemma set_fst_groupby_mean: "fst ` set (groupby_mean key df) = key ` set df"
  using arg_cong [OF map_fst_groupby_mean, of set key df] by (simp add: set_unique)

lemma distinct_groupby_mean: "distinct (map fst (groupby_mean key df))"
  by (simp add: map_fst_groupby_mean distinct_unique)

lemma sorted_groupby_mean: "sorted (map fst (groupby_mean key df))"
  by (simp add: map_fst_groupby_mean)

lemma groupby_mean_entry:
  "(k, m) \<in> set (groupby_mean key df) \<longleftrightarrow>
     k \<in> key ` set df \<and> m = mean (map mb_s (filter (\<lambda>r. key r = k) df))"
  by (auto simp: groupby_mean_def set_unique)

lemma groupby_mean_groups_nonempty:
  "(k, m) \<in> set (groupby_mean key df) \<Longrightarrow> filter (\<lambda>r. key r = k) df \<noteq> []"
  by (auto simp: groupby_mean_entry filter_empty_conv)

lemma groupby_mean_empty_iff: "groupby_mean key df = [] \<longleftrightarrow> df = []"
  using arg_cong [OF map_fst_groupby_mean, of length key df]
  by (cases df) auto

lemma length_groupby_mean: "length (groupby_mean key df) = card (key ` set df)"
  using arg_cong [OF map_fst_groupby_mean, of length key df]
  by (simp add: nunique_card [unfolded nunique_def])

lemma sort_index_groupby_mean: "sort_index (groupby_mean key df) = groupby_mean key df"
  unfolding sort_index_def
  using sorted_groupby_mean[of key df] by (simp add: sorted_sort_id sorted_map sort_key_id_if_sorted)

lemma groupby_mean_sorted_list_of_set:
  "map fst (groupby_mean key df) = sorted_list_of_set (key ` set df)"
proof -
  have "sorted_list_of_set (set (map key df)) = sort (remdups (map key df))"
    by (rule sorted_list_of_set_sort_remdups)
  moreover have "sort (unique (map key df)) = sort (remdups (map key df))"
    by (rule sorted_distinct_set_unique) (simp_all add: distinct_unique set_unique)
  ultimately show ?thesis
    by (simp add: map_fst_groupby_mean)
qed

lemma by_threads_groupby: "by_threads parallel = groupby_mean threads parallel"
  by (simp add: by_threads_def sort_index_groupby_mean)

lemma length_by_threads: "length (by_threads parallel) = card (threads ` set parallel)"
  by (simp add: by_threads_groupby length_groupby_mean)

lemma groupby_mean_hd:
  assumes "df \<noteq> []"
  shows "\<exists>rest. groupby_mean key df =
           (Min (key ` set df), mean (map mb_s (filter (\<lambda>r. key r = Min (key ` set df)) df))) # rest"
proof -
  from assms have ne: "key ` set df \<noteq> {}" by simp
  have "map fst (groupby_mean key df) =
          Min (key ` set df) # sorted_list_of_set (key ` set df - {Min (key ` set df)})"
    using sorted_list_of_set_nonempty [OF _ ne] by (simp add: groupby_mean_sorted_list_of_set)
  then obtain k m rest where g: "groupby_mean key df = (k, m) # rest" and k: "k = Min (key ` set df)"
    by (cases "groupby_mean key df") auto
  have "(k, m) \<in> set (groupby_mean key df)"
    by (simp add: g)
  then have "m = mean (map mb_s (filter (\<lambda>r. key r = k) df))"
    by (simp add: groupby_mean_entry)
  with g k show ?thesis by simp
qed

lemma map_of_groupby_mean:
  "map_of (groupby_mean key df) k =
     (if k \<in> key ` set df then Some (mean (map mb_s (filter (\<lambda>r. key r = k) df))) else None)"
proof (cases "k \<in> key ` set df")
  case True
  then have "(k, mean (map mb_s (filter (\<lambda>r. key r = k) df))) \<in> set (groupby_mean key df)"
    by (simp add: groupby_mean_entry)
  with True show ?thesis
    using map_of_is_SomeI [OF distinct_groupby_mean] by fastforce
next
  case False
  then have "k \<notin> fst ` set (groupby_mean key df)"
    by (simp add: set_fst_groupby_mean)
  with False show ?thesis
    by (simp add: map_of_eq_None_iff)
qed

subsection \<open>The scaling chart\<close>

text \<open>The body of \<open>plot_threading_scaling\<close> with its two early returns made visible.\<close>

lemma plot_threading_scaling_unfold:
  "plot_threading_scaling df output w =
     (if parallel_rows df = [] then Inr (print NoParallelData w)
      else if length (by_threads (parallel_rows df)) < 2 then Inr (print NeedMultipleThreadCounts w)
      else (case (if length (by_threads (parallel_rows df)) > 0
                  then (case iloc0 (by_threads (parallel_rows df)) of
                          Inl e \<Rightarrow> Inl e
                        | Inr single_thread_speed \<Rightarrow>
                            Inr (Some (map (\<lambda>t. fmul single_thread_speed (Finite (of_int t)))
                                         (map fst (by_threads (parallel_rows df))))))
                  else Inr None) of
              Inl e \<Rightarrow> Inl e
            | Inr ideal \<Rightarrow>
                Inr (print (ThreadingChartSaved output)
                      (w\<lparr>files := savefig output (ScalingChart (by_threads (parallel_rows df)) ideal)
                                     (files w)\<rparr>))))"
  unfolding plot_threading_scaling_def Let_def by simp

lemma mean_100: "mean [100] = Finite 100"
  by (simp add: mean_def fsub_def Let_def to_float_small)

lemma mean_160_200: "mean [160, 200] = Finite 180"
  by (simp add: mean_def fsub_def Let_def to_float_small)

lemma mean_300: "mean [300] = Finite 300"
  by (simp add: mean_def fsub_def Let_def to_float_small)

lemma parallel_rows_p5_rows:
  "parallel_rows p5_rows =
     [\<lparr>timestamp = 100, algorithm = ''BlitzHash-MT'', threads = 4, mb_s = 300\<rparr>,
      \<lparr>timestamp = 100, algorithm = ''BlitzHash-MT'', threads = 1, mb_s = 100\<rparr>,
      \<lparr>timestamp = 90, algorithm = ''BlitzHash-MT'', threads = 2, mb_s = 160\<rparr>,
      \<lparr>timestamp = 100, algorithm = ''BlitzHash-MT'', threads = 2, mb_s = 200\<rparr>]"
  by (simp add: p5_rows_def parallel_rows_def)

lemma by_threads_p5_rows:
  "by_threads (parallel_rows p5_rows) = [(1, Finite 100), (2, Finite 180), (4, Finite 300)]"
  by (simp add: parallel_rows_p5_rows by_threads_def groupby_mean_def sort_index_def
      mean_100 mean_160_200 mean_300)

lemma parallel_rows_p5_rows_nonempty: "parallel_rows p5_rows \<noteq> []"
  by (simp add: parallel_rows_p5_rows)

lemma plot_threading_scaling_p5_rows:
  "plot_threading_scaling p5_rows ''threading_plot.png'' \<lparr>files = [], console = []\<rparr> =
     Inr \<lparr>files = [(''threading_plot.png'',
                     ScalingChart [(1, Finite 100), (2, Finite 180), (4, Finite 300)]
                       (Some [Finite 100, Finite 200, Finite 400]))],
          console = [ThreadingChartSaved ''threading_plot.png'']\<rparr>"
  using parallel_rows_p5_rows_nonempty
  by (simp add: plot_threading_scaling_unfold by_threads_p5_rows print_def to_float_small)

lemma scaling_guard_reached:
  assumes "parallel_rows df \<noteq> []" and "\<not> length (by_threads (parallel_rows df)) < 2"
  shows "\<exists>ideal. plot_threading_scaling df output w =
              Inr (print (ThreadingChartSaved output)
                    (w\<lparr>files := savefig output
                         (ScalingChart (by_threads (parallel_rows df)) (Some ideal)) (files w)\<rparr>))"
proof (cases "by_threads (parallel_rows df)")
  case Nil
  with assms show ?thesis by simp
next
  case (Cons p rest)
  with assms show ?thesis
    by (cases p) (auto simp: plot_threading_scaling_unfold)
qed

text \<open>
  Claim C10.  The scaling analysis never raises.  Whenever it gets past its two
  early returns (there are rows for 'BlitzHash-MT' and the per-thread means number at
  least two), the series of per-thread means is non-empty, so the guard of line 108
  is true, reading the first mean succeeds, and the saved chart carries an ideal
  line: the branch without one is never taken.
\<close>

theorem scaling_first_element_guard_always_true:
  "(\<forall>e. plot_threading_scaling df output w \<noteq> Inl e)
   \<and> (parallel_rows df \<noteq> [] \<and> \<not> length (by_threads (parallel_rows df)) < 2 \<longrightarrow>
        0 < length (by_threads (parallel_rows df))
        \<and> (\<exists>single_thread_speed. iloc0 (by_threads (parallel_rows df)) = Inr single_thread_speed)
        \<and> (\<exists>ideal. plot_threading_scaling df output w =
              Inr (print (ThreadingChartSaved output)
                    (w\<lparr>files := savefig output
                         (ScalingChart (by_threads (parallel_rows df)) (Some ideal)) (files w)\<rparr>))))"
proof (cases "by_threads (parallel_rows df)")
  case Nil
  then show ?thesis
    by (simp add: plot_threading_scaling_unfold)
next
  case (Cons p rest)
  then show ?thesis
    by (cases p) (auto simp: plot_threading_scaling_unfold)
qed

theorem scaling_first_element_guard_always_true_witness:
  "parallel_rows p5_rows \<noteq> [] \<and> \<not> length (by_threads (parallel_rows p5_rows)) < 2
   \<and> 0 < length (by_threads (parallel_rows p5_rows))
   \<and> iloc0 (by_threads (parallel_rows p5_rows)) = Inr (Finite 100)
   \<and> (\<exists>ideal. plot_threading_scaling p5_rows ''threading_plot.png'' \<lparr>files = [], console = []\<rparr> =
         Inr \<lparr>files = [(''threading_plot.png'',
                ScalingChart [(1, Finite 100), (2, Finite 180), (4, Finite 300)] (Some ideal))],
              console = [ThreadingChartSaved ''threading_plot.png'']\<rparr>)"
  using scaling_first_element_guard_always_true
    [of p5_rows "''threading_plot.png''" "\<lparr>files = [], console = []\<rparr>"]
    parallel_rows_p5_rows_nonempty
  by (simp add: by_threads_p5_rows print_def)

text \<open>
  Claim C5.  When the rows of 'BlitzHash-MT' show at least two distinct thread counts,
  the chart is saved with an ideal line over the measured thread counts (ascending),
  whose value at thread count t is the float product of the mean throughput of the
  rows with the lowest thread count and t.  For measured means 100, 180 and 300 at 1,
  2 and 4 threads the ideal line is 100, 200, 400.
\<close>

theorem ideal_curve_linear_from_lowest_thread_count:
  assumes "2 \<le> card (threads ` set (parallel_rows df))"
  shows "\<exists>measured ideal w'.
           plot_threading_scaling df output w = Inr w'
           \<and> files w' = savefig output (ScalingChart measured (Some ideal)) (files w)
           \<and> map fst measured = sorted_list_of_set (threads ` set (parallel_rows df))
           \<and> ideal = map (\<lambda>t. fmul (mean (map mb_s
                                (filter (\<lambda>r. threads r = Min (threads ` set (parallel_rows df)))
                                        (parallel_rows df))))
                              (Finite (of_int t)))
                          (map fst measured)"
proof -
  let ?bt = "by_threads (parallel_rows df)"
  let ?low = "mean (map mb_s (filter (\<lambda>r. threads r = Min (threads ` set (parallel_rows df)))
                                (parallel_rows df)))"
  from assms have ne: "parallel_rows df \<noteq> []" by auto
  from assms have len: "\<not> length ?bt < 2"
    by (simp add: length_by_threads)
  obtain rest where hd: "?bt = (Min (threads ` set (parallel_rows df)), ?low) # rest"
    using groupby_mean_hd [OF ne, of threads] by (auto simp: by_threads_groupby)
  have keys: "map fst ?bt = sorted_list_of_set (threads ` set (parallel_rows df))"
    by (simp add: by_threads_groupby groupby_mean_sorted_list_of_set)
  let ?ideal = "map (\<lambda>t. fmul ?low (Finite (of_int t))) (map fst ?bt)"
  let ?w' = "print (ThreadingChartSaved output)
               (w\<lparr>files := savefig output (ScalingChart ?bt (Some ?ideal)) (files w)\<rparr>)"
  have run: "plot_threading_scaling df output w = Inr ?w'"
    using ne len by (subst plot_threading_scaling_unfold) (simp add: hd)
  have "files ?w' = savefig output (ScalingChart ?bt (Some ?ideal)) (files w)"
    by (simp add: print_def)
  with run keys show ?thesis
    by blast
qed

theorem ideal_curve_linear_from_lowest_thread_count_witness:
  "2 \<le> card (threads ` set (parallel_rows p5_rows))
   \<and> (\<exists>w'. plot_threading_scaling p5_rows ''threading_plot.png'' \<lparr>files = [], console = []\<rparr> = Inr w'
        \<and> files w' = [(''threading_plot.png'',
                        ScalingChart [(1, Finite 100), (2, Finite 180), (4, Finite 300)]
                          (Some [Finite 100, Finite 200, Finite 400]))])"
proof -
  have h: "2 \<le> card (threads ` set (parallel_rows p5_rows))"
    by (simp add: parallel_rows_p5_rows)
  show ?thesis
    using h ideal_curve_linear_from_lowest_thread_count
      [OF h, of "''threading_plot.png''" "\<lparr>files = [], console = []\<rparr>"]
    by (simp add: plot_threading_scaling_p5_rows)
qed

subsection \<open>The scaling curve and the timestamps\<close>

lemma parallel_rows_retime:
  "parallel_rows (map (\<lambda>r. r\<lparr>timestamp := f r\<rparr>) df) = map (\<lambda>r. r\<lparr>timestamp := f r\<rparr>) (parallel_rows df)"
  by (simp add: parallel_rows_def filter_map comp_def)

lemma groupby_mean_threads_retime:
  "groupby_mean threads (map (\<lambda>r. r\<lparr>timestamp := f r\<rparr>) df) = groupby_mean threads df"
  by (simp add: groupby_mean_def filter_map comp_def)

lemma by_threads_retime:
  "by_threads (parallel_rows (map (\<lambda>r. r\<lparr>timestamp := f r\<rparr>) df)) = by_threads (parallel_rows df)"
  by (simp add: by_threads_def parallel_rows_retime groupby_mean_threads_retime)

lemma plot_threading_scaling_retime:
  "plot_threading_scaling (map (\<lambda>r. r\<lparr>timestamp := f r\<rparr>) df) output w =
     plot_threading_scaling df output w"
proof -
  have e: "parallel_rows (map (\<lambda>r. r\<lparr>timestamp := f r\<rparr>) df) = [] \<longleftrightarrow> parallel_rows df = []"
    by (simp add: parallel_rows_retime)
  show ?thesis
    unfolding plot_threading_scaling_unfold by_threads_retime e ..
qed

lemma by_threads_entries:
  "by_threads (parallel_rows df) =
     map (\<lambda>t. (t, mean (map mb_s (filter (\<lambda>r. algorithm r = ''BlitzHash-MT'' \<and> threads r = t) df))))
         (sorted_list_of_set (threads ` {r \<in> set df. algorithm r = ''BlitzHash-MT''}))"
proof -
  have rows: "filter (\<lambda>r. threads r = t) (parallel_rows df) =
          filter (\<lambda>r. algorithm r = ''BlitzHash-MT'' \<and> threads r = t) df" for t
    by (simp add: parallel_rows_def conj_commute)
  have keys: "sort (unique (map threads (parallel_rows df))) =
          sorted_list_of_set (threads ` {r \<in> set df. algorithm r = ''BlitzHash-MT''})"
    using groupby_mean_sorted_list_of_set [of threads "parallel_rows df"]
    by (simp add: map_fst_groupby_mean parallel_rows_def)
  show ?thesis
    unfolding by_threads_groupby groupby_mean_def rows keys ..
qed

text \<open>
  Claim C7.  The scaling curve that line 96 computes has one entry for each thread
  count that occurs among the rows of 'BlitzHash-MT' anywhere in the data frame,
  ascending, and the entry is the mean throughput of all rows of the data frame with
  that label and thread count, whatever their timestamps: there is no restriction to
  the latest run.  Changing the timestamps of the rows in any way does not change
  what the scaling analysis does.  Whenever the chart is drawn (at least two thread
  counts), that curve is the measured line of the saved chart.  (In the example the
  row of the older run at 2 threads enters the mean: 180 over the whole data frame,
  where the latest run alone has 200.)
\<close>

theorem scaling_curve_over_whole_dataset:
  "by_threads (parallel_rows df) =
     map (\<lambda>t. (t, mean (map mb_s
                  (filter (\<lambda>r. algorithm r = ''BlitzHash-MT'' \<and> threads r = t) df))))
         (sorted_list_of_set (threads ` {r \<in> set df. algorithm r = ''BlitzHash-MT''}))
   \<and> plot_threading_scaling (map (\<lambda>r. r\<lparr>timestamp := f r\<rparr>) df) output w =
       plot_threading_scaling df output w
   \<and> (2 \<le> card (threads ` {r \<in> set df. algorithm r = ''BlitzHash-MT''}) \<longrightarrow>
        (\<exists>ideal w'.
           plot_threading_scaling df output w = Inr w'
           \<and> files w' = savefig output
                (ScalingChart
                   (map (\<lambda>t. (t, mean (map mb_s
                                (filter (\<lambda>r. algorithm r = ''BlitzHash-MT'' \<and> threads r = t) df))))
                        (sorted_list_of_set (threads ` {r \<in> set df. algorithm r = ''BlitzHash-MT''})))
                   ideal)
                (files w)
           \<and> console w' = console w @ [ThreadingChartSaved output]))"
proof -
  let ?curve = "map (\<lambda>t. (t, mean (map mb_s
                  (filter (\<lambda>r. algorithm r = ''BlitzHash-MT'' \<and> threads r = t) df))))
         (sorted_list_of_set (threads ` {r \<in> set df. algorithm r = ''BlitzHash-MT''}))"
  have curve: "by_threads (parallel_rows df) = ?curve"
    by (rule by_threads_entries)
  have drawn: "\<exists>ideal w'.
           plot_threading_scaling df output w = Inr w'
           \<and> files w' = savefig output (ScalingChart ?curve ideal) (files w)
           \<and> console w' = console w @ [ThreadingChartSaved output]"
    if two: "2 \<le> card (threads ` {r \<in> set df. algorithm r = ''BlitzHash-MT''})"
  proof -
    have set_eq: "set (parallel_rows df) = {r \<in> set df. algorithm r = ''BlitzHash-MT''}"
      by (auto simp: parallel_rows_def)
    with two have c: "2 \<le> card (threads ` set (parallel_rows df))"
      by simp
    then have ne: "parallel_rows df \<noteq> []" by auto
    from c have len: "\<not> length (by_threads (parallel_rows df)) < 2"
      by (simp add: length_by_threads)
    obtain ideal where run: "plot_threading_scaling df output w =
        Inr (print (ThreadingChartSaved output)
              (w\<lparr>files := savefig output
                   (ScalingChart (by_threads (parallel_rows df)) (Some ideal)) (files w)\<rparr>))"
      using scaling_guard_reached [OF ne len] by blast
    let ?w' = "print (ThreadingChartSaved output)
              (w\<lparr>files := savefig output
                   (ScalingChart (by_threads (parallel_rows df)) (Some ideal)) (files w)\<rparr>)"
    have "files ?w' = savefig output (ScalingChart ?curve (Some ideal)) (files w)"
      and "console ?w' = console w @ [ThreadingChartSaved output]"
      by (simp_all add: print_def curve)
    with run show ?thesis
      by blast
  qed
  from curve drawn plot_threading_scaling_retime [of f df "output" w] show ?thesis
    by blast
qed

theorem scaling_curve_over_whole_dataset_witness:
  "2 \<le> card (threads ` {r \<in> set p5_rows. algorithm r = ''BlitzHash-MT''})
   \<and> by_threads (parallel_rows p5_rows) = [(1, Finite 100), (2, Finite 180), (4, Finite 300)]
   \<and> (\<exists>ideal w'. plot_threading_scaling p5_rows ''threading_plot.png'' \<lparr>files = [], console = []\<rparr> = Inr w'
        \<and> files w' = [(''threading_plot.png'',
              ScalingChart [(1, Finite 100), (2, Finite 180), (4, Finite 300)] ideal)])
   \<and> by_threads (parallel_rows (latest_run p5_rows)) = [(1, Finite 100), (2, Finite 200), (4, Finite 300)]"
proof -
  have set_eq: "{r \<in> set p5_rows. algorithm r = ''BlitzHash-MT''} = set (parallel_rows p5_rows)"
    by (auto simp: parallel_rows_def)
  have h: "2 \<le> card (threads ` {r \<in> set p5_rows. algorithm r = ''BlitzHash-MT''})"
    unfolding set_eq by (simp add: parallel_rows_p5_rows)
  have "mean [200] = Finite 200"
    by (simp add: mean_def fsub_def Let_def to_float_small)
  then have latest: "by_threads (parallel_rows (latest_run p5_rows)) =
      [(1, Finite 100), (2, Finite 200), (4, Finite 300)]"
    by (simp add: p5_rows_def latest_run_def by_threads_def parallel_rows_def groupby_mean_def
        sort_index_def mean_100 mean_300)
  show ?thesis
    using h latest scaling_curve_over_whole_dataset
      [of p5_rows "\<lambda>r. 0" "''threading_plot.png''" "\<lparr>files = [], console = []\<rparr>"]
    by (simp add: plot_threading_scaling_p5_rows by_threads_p5_rows)
qed

subsection \<open>The history chart\<close>

lemma history_lines_in_range:
  assumes "\<forall>r \<in> set df. to_datetime_ok lib (timestamp r)"
  shows "history_lines lib df algos =
           Inr (map (\<lambda>algo. (algo, map (\<lambda>r. (timestamp r, to_float (mb_s r)))
                                     (sort_values_timestamp (filter (\<lambda>r. algorithm r = algo) df))))
                    algos)"
proof (induction algos)
  case Nil
  show ?case by simp
next
  case (Cons algo algos)
  have "list_all (to_datetime_ok lib)
          (map timestamp (sort_values_timestamp (filter (\<lambda>r. algorithm r = algo) df)))"
    using assms by (simp add: list_all_iff sort_values_timestamp_def)
  with Cons.IH show ?case
    by (simp add: Let_def)
qed

lemma history_lines_out_of_bounds:
  assumes "r \<in> set df" and "algorithm r \<in> set algos" and "\<not> to_datetime_ok lib (timestamp r)"
  shows "history_lines lib df algos = Inl OutOfBoundsDatetime"
  using assms(2)
proof (induction algos)
  case Nil
  then show ?case by simp
next
  case (Cons algo algos)
  show ?case
  proof (cases "list_all (to_datetime_ok lib)
          (map timestamp (sort_values_timestamp (filter (\<lambda>r. algorithm r = algo) df)))")
    case False
    then show ?thesis by (simp add: Let_def)
  next
    case True
    with assms(1,3) have "algorithm r \<noteq> algo"
      by (auto simp: list_all_iff sort_values_timestamp_def)
    with Cons.prems have "algorithm r \<in> set algos" by simp
    then have "history_lines lib df algos = Inl OutOfBoundsDatetime"
      by (rule Cons.IH)
    with True show ?thesis by (simp add: Let_def)
  qed
qed

text \<open>
  With two runs or more, one timestamp that pandas cannot convert makes the history
  analysis raise OutOfBoundsDatetime; one that only the date axis cannot show makes it
  raise ValueError.  Nothing is saved in either case.
\<close>

lemma plot_history_out_of_bounds:
  assumes "2 \<le> card (timestamp ` set df)"
      and "r \<in> set df" and "\<not> to_datetime_ok lib (timestamp r)"
  shows "plot_history lib df output w = Inl OutOfBoundsDatetime"
proof -
  have "\<not> nunique (map timestamp df) < 2"
    using assms(1) by (simp add: nunique_card)
  moreover have "algorithm r \<in> set (unique (map algorithm df))"
    using assms(2) by (simp add: set_unique)
  then have "history_lines lib df (unique (map algorithm df)) = Inl OutOfBoundsDatetime"
    using assms(2,3) by (intro history_lines_out_of_bounds)
  ultimately show ?thesis
    by (simp add: plot_history_def)
qed

lemma plot_history_axis_error:
  assumes "2 \<le> card (timestamp ` set df)"
      and "\<forall>r \<in> set df. to_datetime_ok lib (timestamp r)"
      and "r \<in> set df" and "\<not> date_axis_ok lib (timestamp r)"
  shows "plot_history lib df output w = Inl ValueError"
proof -
  have "\<not> nunique (map timestamp df) < 2"
    using assms(1) by (simp add: nunique_card)
  moreover have "\<not> list_all (date_axis_ok lib) (map timestamp df)"
    using assms(3,4) by (auto simp: list_all_iff)
  ultimately show ?thesis
    by (simp add: plot_history_def history_lines_in_range [OF assms(2)])
qed




subsection \<open>The latest run\<close>

lemma series_max_Max: "series_max xs = (if xs = [] then None else Some (Max (set xs)))"
proof (induction xs)
  case Nil
  then show ?case by simp
next
  case (Cons x xs)
  then show ?case by (cases "xs = []") simp_all
qed

lemma latest_run_Max:
  "latest_run df = filter (\<lambda>r. timestamp r = Max (timestamp ` set df)) df"
  by (cases "df = []") (simp_all add: latest_run_def series_max_Max)

lemma latest_run_empty_iff: "latest_run df = [] \<longleftrightarrow> df = []"
proof
  assume e: "latest_run df = []"
  show "df = []"
  proof (rule ccontr)
    assume ne: "df \<noteq> []"
    then have "Max (timestamp ` set df) \<in> timestamp ` set df"
      by (intro Max_in) simp_all
    then obtain r where "r \<in> set df" "timestamp r = Max (timestamp ` set df)"
      by auto
    then have "r \<in> set (latest_run df)"
      by (simp add: latest_run_Max)
    with e show False by simp
  qed
next
  assume "df = []"
  then show "latest_run df = []"
    by (simp add: latest_run_def)
qed

lemma latest_run_timestamps:
  assumes "df \<noteq> []"
  shows "timestamp ` set (latest_run df) = {Max (timestamp ` set df)}"
proof -
  from assms have "latest_run df \<noteq> []"
    by (simp add: latest_run_empty_iff)
  then obtain r where "r \<in> set (latest_run df)"
    by (cases "latest_run df") auto
  then show ?thesis
    by (auto simp: latest_run_Max)
qed

lemma latest_run_idem: "latest_run (latest_run df) = latest_run df"
proof (cases "df = []")
  case True
  then show ?thesis by (simp add: latest_run_def)
next
  case False
  have "latest_run (latest_run df) =
          filter (\<lambda>r. timestamp r = Max (timestamp ` set (latest_run df))) (latest_run df)"
    by (rule latest_run_Max)
  also have "\<dots> = filter (\<lambda>r. timestamp r = Max (timestamp ` set df)) (latest_run df)"
    by (simp add: latest_run_timestamps [OF False])
  also have "\<dots> = latest_run df"
    by (simp add: latest_run_Max)
  finally show ?thesis .
qed

lemma latest_run_drop_older:
  assumes "timestamp r \<noteq> Max (timestamp ` set (xs @ r # ys))"
  shows "latest_run (xs @ r # ys) = latest_run (xs @ ys)"
proof -
  let ?A = "timestamp ` set (xs @ ys)"
  have ins: "timestamp ` set (xs @ r # ys) = insert (timestamp r) ?A"
    by auto
  have ne: "?A \<noteq> {}"
  proof
    assume "?A = {}"
    then have "xs = []" and "ys = []"
      by simp_all
    with assms show False by simp
  qed
  have "Max (insert (timestamp r) ?A) = max (timestamp r) (Max ?A)"
    using ne by (intro Max_insert) simp_all
  with assms have m: "Max (timestamp ` set (xs @ r # ys)) = Max ?A" and lt: "timestamp r \<noteq> Max ?A"
    unfolding ins by (auto simp: max_def split: if_splits)
  have "latest_run (xs @ r # ys) = filter (\<lambda>r. timestamp r = Max ?A) (xs @ r # ys)"
    unfolding latest_run_Max m ..
  also have "\<dots> = filter (\<lambda>r. timestamp r = Max ?A) (xs @ ys)"
    using lt by simp
  finally show ?thesis
    by (simp add: latest_run_Max)
qed

lemma throughput_summary_latest: "throughput_summary (latest_run df) = throughput_summary df"
  by (simp add: throughput_summary_def latest_run_idem)

lemma plot_throughput_comparison_cong:
  "throughput_summary df = throughput_summary df' \<Longrightarrow>
     plot_throughput_comparison df output w = plot_throughput_comparison df' output w"
  by (simp add: plot_throughput_comparison_def)

text \<open>
  Claim C4.  The summary and everything the throughput comparison does are the same
  for a data frame and for its latest run alone.  A row whose timestamp is not the
  largest of the data frame it belongs to can be removed (or, read the other way,
  added) without changing the summary, the speedups, the chart or the table.
\<close>

theorem latest_run_isolation:
  "throughput_summary df = throughput_summary (latest_run df)
   \<and> plot_throughput_comparison df output w = plot_throughput_comparison (latest_run df) output w
   \<and> (timestamp r \<noteq> Max (timestamp ` set (xs @ r # ys)) \<longrightarrow>
        throughput_summary (xs @ r # ys) = throughput_summary (xs @ ys)
        \<and> plot_throughput_comparison (xs @ r # ys) output w =
            plot_throughput_comparison (xs @ ys) output w)"
proof -
  have a: "throughput_summary df = throughput_summary (latest_run df)"
    by (simp add: throughput_summary_latest)
  have b: "throughput_summary (xs @ r # ys) = throughput_summary (xs @ ys)"
    if "timestamp r \<noteq> Max (timestamp ` set (xs @ r # ys))"
    using latest_run_drop_older [OF that] by (simp add: throughput_summary_def)
  from a b show ?thesis
    using plot_throughput_comparison_cong by blast
qed

theorem latest_run_isolation_witness:
  "timestamp \<lparr>timestamp = 50, algorithm = ''SHA-256'', threads = 1, mb_s = 10\<rparr>
     \<noteq> Max (timestamp ` set
         ([\<lparr>timestamp = 100, algorithm = ''SHA-256'', threads = 1, mb_s = 50\<rparr>]
          @ \<lparr>timestamp = 50, algorithm = ''SHA-256'', threads = 1, mb_s = 10\<rparr>
          # [\<lparr>timestamp = 100, algorithm = ''BlitzHash'', threads = 1, mb_s = 200\<rparr>]))
   \<and> throughput_summary
         ([\<lparr>timestamp = 100, algorithm = ''SHA-256'', threads = 1, mb_s = 50\<rparr>]
          @ \<lparr>timestamp = 50, algorithm = ''SHA-256'', threads = 1, mb_s = 10\<rparr>
          # [\<lparr>timestamp = 100, algorithm = ''BlitzHash'', threads = 1, mb_s = 200\<rparr>])
       = [(''SHA-256'', Finite 50), (''BlitzHash'', Finite 200)]"
proof -
  have "throughput_summary
         ([\<lparr>timestamp = 100, algorithm = ''SHA-256'', threads = 1, mb_s = 50\<rparr>]
          @ [\<lparr>timestamp = 100, algorithm = ''BlitzHash'', threads = 1, mb_s = 200\<rparr>])
       = [(''SHA-256'', Finite 50), (''BlitzHash'', Finite 200)]"
    by (simp add: throughput_summary_def latest_run_def groupby_mean_def sort_values_def
        mean_def fsub_def Let_def to_float_small)
  then show ?thesis
    using latest_run_isolation
      [of "[]" "''bench_plot.png''" "\<lparr>files = [], console = []\<rparr>"
          "\<lparr>timestamp = 50, algorithm = ''SHA-256'', threads = 1, mb_s = 10\<rparr>"
          "[\<lparr>timestamp = 100, algorithm = ''SHA-256'', threads = 1, mb_s = 50\<rparr>]"
          "[\<lparr>timestamp = 100, algorithm = ''BlitzHash'', threads = 1, mb_s = 200\<rparr>]"]
    by simp
qed

subsection \<open>The baseline\<close>

lemma sort_rank_le_iff: "sort_rank x \<le> sort_rank y \<longleftrightarrow> y = NaN \<or> fle x y"
  by (cases x; cases y) simp_all

lemma fdiv_self:
  "fdiv b b = (if b = Finite 0 \<or> b = PosInf \<or> b = NegInf \<or> b = NaN then NaN else Finite 1)"
  by (cases b) (simp_all add: to_float_small)

lemma fdiv_zero:
  assumes "m = NaN \<or> fle (Finite 0) m"
  shows "fdiv m (Finite 0) = (if m = Finite 0 \<or> m = NaN then NaN else PosInf)"
  using assms by (cases m) auto

lemma set_throughput_summary:
  "set (throughput_summary df) = set (groupby_mean algorithm (latest_run df))"
  by (simp add: throughput_summary_def sort_values_def)

lemma sorted_throughput_summary:
  "sorted (map (\<lambda>p. sort_rank (snd p)) (throughput_summary df))"
  by (simp add: throughput_summary_def sort_values_def)

lemma throughput_summary_entry:
  "(a, m) \<in> set (throughput_summary df) \<longleftrightarrow>
     a \<in> algorithm ` set (latest_run df) \<and> m = latest_mean df a"
  by (simp add: set_throughput_summary groupby_mean_entry latest_mean_def)

lemma throughput_summary_empty_iff: "throughput_summary df = [] \<longleftrightarrow> latest_run df = []"
proof -
  have "throughput_summary df = [] \<longleftrightarrow> set (throughput_summary df) = {}"
    by simp
  also have "\<dots> \<longleftrightarrow> groupby_mean algorithm (latest_run df) = []"
    by (simp add: set_throughput_summary)
  finally show ?thesis
    by (simp add: groupby_mean_empty_iff)
qed

lemma throughput_summary_first_least:
  assumes "throughput_summary df = (a, b) # rest" and "(a', m) \<in> set (throughput_summary df)"
  shows "m = NaN \<or> fle b m"
proof -
  have "sort_rank b \<le> sort_rank m"
    using sorted_throughput_summary [of df] assms by auto
  then show ?thesis
    by (simp add: sort_rank_le_iff)
qed

lemma plot_throughput_comparison_Cons:
  assumes "throughput_summary df = (a, b) # rest"
  shows "plot_throughput_comparison df output w =
           Inr (print (SummaryTable (summary_table (throughput_summary df) b))
                 (print (ChartSaved output)
                   (w\<lparr>files := savefig output
                        (ComparisonChart (throughput_summary df)
                           (speedup_series (throughput_summary df) b)) (files w)\<rparr>)))"
  unfolding plot_throughput_comparison_def Let_def by (simp add: assms)

text \<open>
  Claim C1, as the code has it.  When the latest run holds at least one row, the
  comparison is saved and its baseline is the first entry of the summary: an
  algorithm of the latest run whose mean throughput there is no larger than that of
  any algorithm of the latest run (a mean that is NaN, which only an overflowed sum
  gives, counts as largest), chosen by position and not by name.  The chart and the
  table give every algorithm its mean divided by the baseline.  The speedup of the
  baseline algorithm is exactly 1 provided the baseline is finite and not 0; for a
  baseline of 0, or one that is not finite because the sum of its group overflowed,
  the division gives NaN.
\<close>

theorem baseline_is_slowest_with_speedup_one:
  assumes "latest_run df \<noteq> []"
  shows "\<exists>a b s summary speedup w'.
           plot_throughput_comparison df output w = Inr w'
           \<and> files w' = savefig output (ComparisonChart summary speedup) (files w)
           \<and> console w' = console w @
                [ChartSaved output, SummaryTable (map (\<lambda>(a', m). (a', m, fdiv m b)) summary)]
           \<and> speedup = map (\<lambda>(a', m). (a', fdiv m b)) summary
           \<and> hd summary = (a, b) \<and> iloc0 summary = Inr b
           \<and> a \<in> algorithm ` set (latest_run df)
           \<and> b = latest_mean df a
           \<and> (\<forall>a' \<in> algorithm ` set (latest_run df).
                 latest_mean df a' = NaN \<or> fle b (latest_mean df a'))
           \<and> hd speedup = (a, s) \<and> map_of speedup a = Some s
           \<and> ((\<exists>q. b = Finite q \<and> q \<noteq> 0) \<longrightarrow> s = Finite 1)
           \<and> (b = Finite 0 \<or> b = PosInf \<or> b = NegInf \<or> b = NaN \<longrightarrow> s = NaN)"
proof -
  from assms obtain a b rest where s: "throughput_summary df = (a, b) # rest"
    by (cases "throughput_summary df") (auto simp: throughput_summary_empty_iff)
  let ?summary = "throughput_summary df"
  let ?speedup = "map (\<lambda>(a', m). (a', fdiv m b)) ?summary"
  let ?w' = "print (SummaryTable (summary_table ?summary b))
                 (print (ChartSaved output)
                   (w\<lparr>files := savefig output
                        (ComparisonChart ?summary (speedup_series ?summary b)) (files w)\<rparr>))"
  have run: "plot_throughput_comparison df output w = Inr ?w'"
    using s by (rule plot_throughput_comparison_Cons)
  have fl: "files ?w' = savefig output (ComparisonChart ?summary ?speedup) (files w)"
    by (simp add: print_def speedup_series_def)
  have co: "console ?w' = console w @
      [ChartSaved output, SummaryTable (map (\<lambda>(a', m). (a', m, fdiv m b)) ?summary)]"
    by (simp add: print_def summary_table_def)
  have "(a, b) \<in> set ?summary"
    by (simp add: s)
  then have mem: "a \<in> algorithm ` set (latest_run df)" and b: "b = latest_mean df a"
    by (simp_all add: throughput_summary_entry)
  have least: "\<forall>a' \<in> algorithm ` set (latest_run df).
      latest_mean df a' = NaN \<or> fle b (latest_mean df a')"
  proof
    fix a' assume "a' \<in> algorithm ` set (latest_run df)"
    then have "(a', latest_mean df a') \<in> set ?summary"
      by (simp add: throughput_summary_entry)
    with s show "latest_mean df a' = NaN \<or> fle b (latest_mean df a')"
      by (rule throughput_summary_first_least)
  qed
  have sp: "?speedup = (a, fdiv b b) # map (\<lambda>(a', m). (a', fdiv m b)) rest"
    by (simp add: s)
  have hd: "hd ?speedup = (a, fdiv b b)" and mo: "map_of ?speedup a = Some (fdiv b b)"
    unfolding sp by simp_all
  have one: "(\<exists>q. b = Finite q \<and> q \<noteq> 0) \<longrightarrow> fdiv b b = Finite 1"
    by (auto simp: fdiv_self)
  have nan: "b = Finite 0 \<or> b = PosInf \<or> b = NegInf \<or> b = NaN \<longrightarrow> fdiv b b = NaN"
    by (simp add: fdiv_self)
  have "hd ?summary = (a, b)" and "iloc0 ?summary = Inr b"
    by (simp_all add: s)
  with run fl co mem b least hd mo one nan show ?thesis
    by blast
qed

lemma throughput_summary_slow_blitz_rows:
  "throughput_summary slow_blitz_rows = [(''BlitzHash'', Finite 20), (''SHA-256'', Finite 50)]"
  by (simp add: slow_blitz_rows_def throughput_summary_def latest_run_def groupby_mean_def
      sort_values_def mean_def fsub_def Let_def to_float_small)

theorem baseline_is_slowest_with_speedup_one_witness:
  "latest_run slow_blitz_rows \<noteq> []
   \<and> (\<exists>w'. plot_throughput_comparison slow_blitz_rows ''bench_plot.png'' \<lparr>files = [], console = []\<rparr> = Inr w'
        \<and> files w' = [(''bench_plot.png'',
              ComparisonChart [(''BlitzHash'', Finite 20), (''SHA-256'', Finite 50)]
                              [(''BlitzHash'', Finite 1), (''SHA-256'', Finite (5 / 2))])]
        \<and> console w' = [ChartSaved ''bench_plot.png'',
              SummaryTable [(''BlitzHash'', Finite 20, Finite 1),
                            (''SHA-256'', Finite 50, Finite (5 / 2))]])"
proof -
  note s = throughput_summary_slow_blitz_rows
  have h1: "latest_run slow_blitz_rows \<noteq> []"
    by (simp add: slow_blitz_rows_def latest_run_def)
  have run: "plot_throughput_comparison slow_blitz_rows ''bench_plot.png'' \<lparr>files = [], console = []\<rparr> =
      Inr \<lparr>files = [(''bench_plot.png'',
              ComparisonChart [(''BlitzHash'', Finite 20), (''SHA-256'', Finite 50)]
                              [(''BlitzHash'', Finite 1), (''SHA-256'', Finite (5 / 2))])],
           console = [ChartSaved ''bench_plot.png'',
              SummaryTable [(''BlitzHash'', Finite 20, Finite 1),
                            (''SHA-256'', Finite 50, Finite (5 / 2))]]\<rparr>"
    by (simp add: plot_throughput_comparison_Cons [OF s] s speedup_series_def summary_table_def
        print_def to_float_small)
  show ?thesis
    using h1 baseline_is_slowest_with_speedup_one
      [OF h1, of "''bench_plot.png''" "\<lparr>files = [], console = []\<rparr>"]
    by (simp add: run)
qed

text \<open>
  Claim C1 without the proviso fails: a latest run of one row with throughput 0 has
  that row's algorithm as its baseline, with speedup NaN and not 1.
\<close>

theorem baseline_not_one_when_mean_zero:
  "latest_run [\<lparr>timestamp = 100, algorithm = ''SHA-256'', threads = 1, mb_s = 0\<rparr>] \<noteq> []
   \<and> plot_throughput_comparison
        [\<lparr>timestamp = 100, algorithm = ''SHA-256'', threads = 1, mb_s = 0\<rparr>]
        ''bench_plot.png'' \<lparr>files = [], console = []\<rparr> =
      Inr \<lparr>files = [(''bench_plot.png'',
                ComparisonChart [(''SHA-256'', Finite 0)] [(''SHA-256'', NaN)])],
           console = [ChartSaved ''bench_plot.png'', SummaryTable [(''SHA-256'', Finite 0, NaN)]]\<rparr>"
  by (simp add: plot_throughput_comparison_def throughput_summary_def latest_run_def
      groupby_mean_def sort_values_def mean_def fsub_def Let_def to_float_small
      speedup_series_def summary_table_def print_def)

text \<open>
  The same happens when the float sum of the baseline's group overflows: two rows of
  10 to the 308 (\<open>huge\<close>) have the mean infinity, and infinity divided by infinity is NaN.
\<close>

lemma mean_overflow: "mean [huge, huge] = PosInf"
  by (simp add: mean_def fsub_def Let_def to_float_def float_max_def huge_def)

lemma baseline_not_one_when_mean_overflows:
  "plot_throughput_comparison
        [\<lparr>timestamp = 100, algorithm = ''A'', threads = 1, mb_s = huge\<rparr>,
         \<lparr>timestamp = 100, algorithm = ''A'', threads = 1, mb_s = huge\<rparr>]
        ''bench_plot.png'' \<lparr>files = [], console = []\<rparr> =
      Inr \<lparr>files = [(''bench_plot.png'', ComparisonChart [(''A'', PosInf)] [(''A'', NaN)])],
           console = [ChartSaved ''bench_plot.png'', SummaryTable [(''A'', PosInf, NaN)]]\<rparr>"
  by (simp add: plot_throughput_comparison_def throughput_summary_def latest_run_def
      groupby_mean_def sort_values_def mean_overflow Let_def
      speedup_series_def summary_table_def print_def)

subsection \<open>A baseline of zero\<close>

text \<open>
  Claim C2, as the code has it.  When the baseline is exactly 0 the throughput
  comparison raises nothing: the chart is saved and the table printed, and in both
  the speedup is NaN for every algorithm whose mean is 0 (or NaN) and positive
  infinity for every other.
\<close>

theorem zero_baseline_gives_nan_and_infinity:
  assumes "iloc0 (throughput_summary df) = Inr (Finite 0)"
  shows "\<exists>summary w'.
           plot_throughput_comparison df output w = Inr w'
           \<and> summary = throughput_summary df
           \<and> files w' = savefig output
                (ComparisonChart summary
                   (map (\<lambda>(a, m). (a, if m = Finite 0 \<or> m = NaN then NaN else PosInf)) summary))
                (files w)
           \<and> console w' = console w @
                [ChartSaved output,
                 SummaryTable
                   (map (\<lambda>(a, m). (a, m, if m = Finite 0 \<or> m = NaN then NaN else PosInf)) summary)]"
proof -
  from assms obtain a rest where s: "throughput_summary df = (a, Finite 0) # rest"
    by (cases "throughput_summary df") auto
  have z: "fdiv m (Finite 0) = (if m = Finite 0 \<or> m = NaN then NaN else PosInf)"
    if "(a', m) \<in> set (throughput_summary df)" for a' m
    using throughput_summary_first_least [OF s that] by (rule fdiv_zero)
  have sp: "speedup_series (throughput_summary df) (Finite 0) =
      map (\<lambda>(a, m). (a, if m = Finite 0 \<or> m = NaN then NaN else PosInf)) (throughput_summary df)"
    unfolding speedup_series_def using z by (intro map_cong) auto
  have tb: "summary_table (throughput_summary df) (Finite 0) =
      map (\<lambda>(a, m). (a, m, if m = Finite 0 \<or> m = NaN then NaN else PosInf)) (throughput_summary df)"
    unfolding summary_table_def using z by (intro map_cong) auto
  show ?thesis
    by (simp add: plot_throughput_comparison_Cons [OF s] sp tb print_def)
qed

lemma throughput_summary_null_rows:
  "throughput_summary
        [\<lparr>timestamp = 100, algorithm = ''BlitzHash'', threads = 1, mb_s = 200\<rparr>,
         \<lparr>timestamp = 100, algorithm = ''Null'', threads = 1, mb_s = 0\<rparr>] =
        [(''Null'', Finite 0), (''BlitzHash'', Finite 200)]"
  by (simp add: throughput_summary_def latest_run_def groupby_mean_def sort_values_def
      mean_def fsub_def Let_def to_float_small)

theorem zero_baseline_gives_nan_and_infinity_witness:
  "iloc0 (throughput_summary
        [\<lparr>timestamp = 100, algorithm = ''BlitzHash'', threads = 1, mb_s = 200\<rparr>,
         \<lparr>timestamp = 100, algorithm = ''Null'', threads = 1, mb_s = 0\<rparr>]) = Inr (Finite 0)
   \<and> (\<exists>w'. plot_throughput_comparison
        [\<lparr>timestamp = 100, algorithm = ''BlitzHash'', threads = 1, mb_s = 200\<rparr>,
         \<lparr>timestamp = 100, algorithm = ''Null'', threads = 1, mb_s = 0\<rparr>]
        ''bench_plot.png'' \<lparr>files = [], console = [Loaded 2]\<rparr> = Inr w'
      \<and> files w' = [(''bench_plot.png'',
              ComparisonChart [(''Null'', Finite 0), (''BlitzHash'', Finite 200)]
                              [(''Null'', NaN), (''BlitzHash'', PosInf)])]
      \<and> console w' = [Loaded 2, ChartSaved ''bench_plot.png'',
              SummaryTable [(''Null'', Finite 0, NaN), (''BlitzHash'', Finite 200, PosInf)]])"
proof -
  note s = throughput_summary_null_rows
  have h: "iloc0 (throughput_summary
        [\<lparr>timestamp = 100, algorithm = ''BlitzHash'', threads = 1, mb_s = 200\<rparr>,
         \<lparr>timestamp = 100, algorithm = ''Null'', threads = 1, mb_s = 0\<rparr>]) = Inr (Finite 0)"
    by (simp add: s)
  show ?thesis
    using h zero_baseline_gives_nan_and_infinity
      [OF h, of "''bench_plot.png''" "\<lparr>files = [], console = [Loaded 2]\<rparr>"]
    by (simp add: s)
qed

text \<open>
  Claim C2 as stated fails: with means 0 and 200 the baseline is 0, no DivisionByZero
  reaches the caller, the call returns normally and the speedups are NaN and infinity.
\<close>

theorem zero_baseline_raises_nothing:
  "plot_throughput_comparison
        [\<lparr>timestamp = 100, algorithm = ''SHA-256'', threads = 1, mb_s = 0\<rparr>,
         \<lparr>timestamp = 100, algorithm = ''BlitzHash'', threads = 1, mb_s = 200\<rparr>]
        ''bench_plot.png'' \<lparr>files = [], console = []\<rparr> =
      Inr \<lparr>files = [(''bench_plot.png'',
              ComparisonChart [(''SHA-256'', Finite 0), (''BlitzHash'', Finite 200)]
                              [(''SHA-256'', NaN), (''BlitzHash'', PosInf)])],
           console = [ChartSaved ''bench_plot.png'',
              SummaryTable [(''SHA-256'', Finite 0, NaN), (''BlitzHash'', Finite 200, PosInf)]]\<rparr>"
  by (simp add: plot_throughput_comparison_def throughput_summary_def latest_run_def
      groupby_mean_def sort_values_def mean_def fsub_def Let_def to_float_small
      speedup_series_def summary_table_def print_def)

end
